theory Spec2Isabelle
  imports Complex_Main
begin

unbundle bit_operations_syntax

section \<open>Images, collections and errors\<close>

text \<open>
  The notebook \<^verbatim>\<open>spectral-change_ncar.ipynb\<close> builds Earth Engine computations. Its
  functions are embedded here over a value model of the Earth Engine objects they handle:
  an image is a list of named bands plus a property dictionary, a band gives every pixel
  a value or nothing (a masked pixel), and a collection is a list of images plus its own
  properties. A failing computation is a value of type \<open>error\<close>.

  Numbers are real numbers: the rounding of the platform's floating point is not modelled.
  Masks are valid/invalid only (the masks the notebook applies are results of comparisons),
  and the footprint, projection and scale of an image are not modelled.
\<close>

type_synonym pixel = nat

datatype ptype = PInt | PFloat

record band =
  bname :: string
  btype :: ptype
  bdata :: "pixel \<Rightarrow> real option"

datatype pvalue = Num real | Str string

record image =
  bands :: "band list"
  props :: "string \<rightharpoonup> pvalue"

record collection =
  images :: "image list"
  cprops :: "string \<rightharpoonup> pvalue"

datatype error =
    UnboundLocalError string
  | BandNotFound string
  | BitwiseNonInteger
  | BandCountMismatch
  | PropertyNotNumeric string
  | InhomogeneousCollection
  | ReducerInputs nat nat

definition ee_bind :: "error + 'a \<Rightarrow> ('a \<Rightarrow> error + 'b) \<Rightarrow> error + 'b" where
  "ee_bind m f = (case m of Inl e \<Rightarrow> Inl e | Inr v \<Rightarrow> f v)"


section \<open>The Earth Engine operations the notebook calls\<close>

text \<open>
  \<^verbatim>\<open>Image.select(name)\<close>: the image reduced to the named band, with the properties of the
  input; an error when no band has the name.
\<close>

definition select :: "image \<Rightarrow> string \<Rightarrow> error + image" where
  "select img n =
     (case find (\<lambda>b. bname b = n) (bands img) of
        None \<Rightarrow> Inl (BandNotFound n)
      | Some b \<Rightarrow> Inr (img\<lparr>bands := [b]\<rparr>))"

text \<open>The data of the first band of an image (of its only band, after \<open>select\<close>).\<close>

definition band1 :: "image \<Rightarrow> pixel \<Rightarrow> real option" where
  "band1 img = (case bands img of [] \<Rightarrow> (\<lambda>p. None) | b # bs \<Rightarrow> bdata b)"

text \<open>
  Operations with a constant work band by band and keep the band names; their result does
  not carry the properties of the input. \<^verbatim>\<open>bitwiseAnd\<close> needs integer bands.
\<close>

definition map_values :: "ptype \<Rightarrow> (real \<Rightarrow> real) \<Rightarrow> image \<Rightarrow> image" where
  "map_values t f img =
     \<lparr>bands = map (\<lambda>b. \<lparr>bname = bname b, btype = t,
                           bdata = (\<lambda>p. map_option f (bdata b p))\<rparr>) (bands img),
      props = Map.empty\<rparr>"

definition bitwiseAnd :: "image \<Rightarrow> int \<Rightarrow> error + image" where
  "bitwiseAnd img k =
     (if list_all (\<lambda>b. btype b = PInt) (bands img)
      then Inr (map_values PInt (\<lambda>v. of_int (\<lfloor>v\<rfloor> AND k)) img)
      else Inl BitwiseNonInteger)"

definition eq :: "image \<Rightarrow> real \<Rightarrow> image" where
  "eq img c = map_values PInt (\<lambda>v. if v = c then 1 else 0) img"

definition lt :: "image \<Rightarrow> real \<Rightarrow> image" where
  "lt img c = map_values PInt (\<lambda>v. if v < c then 1 else 0) img"

definition lte :: "image \<Rightarrow> real \<Rightarrow> image" where
  "lte img c = map_values PInt (\<lambda>v. if v \<le> c then 1 else 0) img"

definition divide :: "image \<Rightarrow> real \<Rightarrow> image" where
  "divide img c = map_values PFloat (\<lambda>v. if c = 0 then 0 else v / c) img"

text \<open>
  \<^verbatim>\<open>Image.And(other)\<close>: a one-band image is used against every band of the other one,
  images with the same number of bands are used pairwise, anything else is an error. The
  result is 1 where both values are non-zero and masked where either input is masked.
\<close>

definition and_band :: "band \<Rightarrow> band \<Rightarrow> band" where
  "and_band a b =
     \<lparr>bname = bname a, btype = PInt,
      bdata = (\<lambda>p. case (bdata a p, bdata b p) of
                      (Some x, Some y) \<Rightarrow> Some (if x \<noteq> 0 \<and> y \<noteq> 0 then 1 else 0)
                    | _ \<Rightarrow> None)\<rparr>"

definition And :: "image \<Rightarrow> image \<Rightarrow> error + image" where
  "And a b =
     (if length (bands a) = length (bands b)
      then Inr \<lparr>bands = map2 and_band (bands a) (bands b), props = Map.empty\<rparr>
      else if length (bands b) = 1
      then Inr \<lparr>bands = map (\<lambda>x. and_band x (hd (bands b))) (bands a), props = Map.empty\<rparr>
      else if length (bands a) = 1
      then Inr \<lparr>bands = map (\<lambda>y. (and_band (hd (bands a)) y)\<lparr>bname := bname y\<rparr>) (bands b),
                props = Map.empty\<rparr>
      else Inl BandCountMismatch)"

text \<open>
  \<^verbatim>\<open>Image.updateMask(mask)\<close>: a pixel stays valid where it was valid and the mask is valid
  and non-zero (a masked pixel of the mask hides the pixel). A one-band mask is applied to
  every band; otherwise the mask needs as many bands as the image. The result keeps the
  band names and all the properties of the image.
\<close>

definition apply_mask :: "band \<Rightarrow> band \<Rightarrow> band" where
  "apply_mask m b =
     b\<lparr>bdata := (\<lambda>p. case bdata m p of
                        None \<Rightarrow> None
                      | Some v \<Rightarrow> if v \<noteq> 0 then bdata b p else None)\<rparr>"

definition updateMask :: "image \<Rightarrow> image \<Rightarrow> error + image" where
  "updateMask img msk =
     (case bands msk of
        [m] \<Rightarrow> Inr (img\<lparr>bands := map (apply_mask m) (bands img)\<rparr>)
      | ms \<Rightarrow> if length ms = length (bands img)
              then Inr (img\<lparr>bands := map2 (\<lambda>b m. apply_mask m b) (bands img) ms\<rparr>)
              else Inl BandCountMismatch)"

text \<open>
  \<^verbatim>\<open>Element.copyProperties(source, properties)\<close>: the listed properties of the source
  that exist are written over those of the destination.
\<close>

definition copyProperties :: "image \<Rightarrow> image \<Rightarrow> string list \<Rightarrow> image" where
  "copyProperties dst src keys = dst\<lparr>props := props dst ++ restrict_map (props src) (set keys)\<rparr>"

text \<open>
  \<^verbatim>\<open>Image.expression\<close> with three one-band operands, for the expression of
  \<^verbatim>\<open>maskWhite\<close>: one band, valid where the three operands are valid.
\<close>

definition expression3 :: "(real \<Rightarrow> real \<Rightarrow> real \<Rightarrow> real) \<Rightarrow> image \<Rightarrow> image \<Rightarrow> image \<Rightarrow> image" where
  "expression3 f r g b =
     \<lparr>bands = [\<lparr>bname = ''constant'', btype = PFloat,
                bdata = (\<lambda>p. case (band1 r p, band1 g p, band1 b p) of
                                (Some x, Some y, Some z) \<Rightarrow> Some (f x y z)
                              | _ \<Rightarrow> None)\<rparr>],
      props = Map.empty\<rparr>"

section \<open>The masking functions\<close>

text \<open>
  \<^verbatim>\<open>maskS2clouds(image)\<close>: bits 10 and 11 of band QA60 are the cloud and cirrus flags;
  the pixels where both are zero are kept, every band is divided by 10000, and the capture
  time is copied back from the input.
\<close>

definition maskS2clouds :: "image \<Rightarrow> error + image" where
  "maskS2clouds img =
     ee_bind (select img ''QA60'') (\<lambda>qa.
     let cloudBitMask = push_bit 10 (1::int);
         cirrusBitMask = push_bit 11 (1::int) in
     ee_bind (bitwiseAnd qa cloudBitMask) (\<lambda>cloud.
     ee_bind (bitwiseAnd qa cirrusBitMask) (\<lambda>cirrus.
     ee_bind (And (eq cloud 0) (eq cirrus 0)) (\<lambda>msk.
     ee_bind (updateMask img msk) (\<lambda>masked.
     Inr (copyProperties (divide masked 10000) img [''system:time_start'']))))))"

text \<open>
  \<^verbatim>\<open>maskWater(image)\<close> reads the notebook variable \<^verbatim>\<open>waterMask\<close>, here its first
  argument.
\<close>

definition maskWater :: "image \<Rightarrow> image \<Rightarrow> error + image" where
  "maskWater waterMask img =
     ee_bind (select waterMask ''water_mask'') (\<lambda>w. updateMask img (lt w 1))"

definition maskS2snow :: "image \<Rightarrow> error + image" where
  "maskS2snow img =
     ee_bind (select img ''MSK_SNWPRB'') (\<lambda>snow.
     let msk = lt snow (9 / 1000) in
     ee_bind (updateMask img msk) (\<lambda>masked.
     Inr (copyProperties masked img [''system:time_start''])))"

text \<open>
  The expression of \<^verbatim>\<open>maskWhite\<close>,
  \<^verbatim>\<open>(.3 * 1e4 * R) + (.59 * 1e4 * G) + (.11 * 1e4 * B)\<close>, at one pixel.
\<close>

definition grayscale_value :: "real \<Rightarrow> real \<Rightarrow> real \<Rightarrow> real" where
  "grayscale_value r g b = (3 / 10 * 10000 * r) + (59 / 100 * 10000 * g) + (11 / 100 * 10000 * b)"

definition maskWhite :: "image \<Rightarrow> error + image" where
  "maskWhite img =
     ee_bind (select img ''B4'') (\<lambda>R.
     ee_bind (select img ''B3'') (\<lambda>G.
     ee_bind (select img ''B2'') (\<lambda>B.
     let grayscale = expression3 grayscale_value R G B;
         white_mask = lte grayscale 2000 in
     ee_bind (updateMask img white_mask) (\<lambda>masked.
     Inr (copyProperties masked img [''system:time_start''])))))"

section \<open>Calendar filters\<close>

text \<open>
  \<^verbatim>\<open>ee.Filter.calendarRange(start, end, field)\<close> reads the property
  \<^verbatim>\<open>system:time_start\<close> (milliseconds since 1970-01-01, UTC) and passes the images
  whose calendar field lies in the range; with \<open>end < start\<close> the range wraps around. An
  image without a numeric time does not pass. The year and month of a day count (days
  since 1970-01-01) follow the proleptic Gregorian calendar, computed in 400-year eras that
  start on a 1st of March.
\<close>

definition year_of_era :: "int \<Rightarrow> int" where
  "year_of_era doe = (doe - doe div 1460 + doe div 36524 - doe div 146096) div 365"

definition day_of_year :: "int \<Rightarrow> int" where
  "day_of_year doe =
     doe - (365 * year_of_era doe + year_of_era doe div 4 - year_of_era doe div 100)"

definition civil_month :: "int \<Rightarrow> int" where
  "civil_month days =
     (if (5 * day_of_year ((days + 719468) mod 146097) + 2) div 153 < 10
      then (5 * day_of_year ((days + 719468) mod 146097) + 2) div 153 + 3
      else (5 * day_of_year ((days + 719468) mod 146097) + 2) div 153 - 9)"

definition civil_year :: "int \<Rightarrow> int" where
  "civil_year days =
     year_of_era ((days + 719468) mod 146097) + (days + 719468) div 146097 * 400
       + (if civil_month days \<le> 2 then 1 else 0)"

datatype calfield = Year | Month

definition calendar_value :: "calfield \<Rightarrow> real \<Rightarrow> int" where
  "calendar_value f t =
     (case f of Year \<Rightarrow> civil_year \<lfloor>t / 86400000\<rfloor> | Month \<Rightarrow> civil_month \<lfloor>t / 86400000\<rfloor>)"

definition time_start :: "image \<Rightarrow> real option" where
  "time_start img = (case props img ''system:time_start'' of Some (Num t) \<Rightarrow> Some t | _ \<Rightarrow> None)"

definition calendarRange :: "int \<Rightarrow> int \<Rightarrow> calfield \<Rightarrow> image \<Rightarrow> bool" where
  "calendarRange s e f img =
     (case time_start img of
        None \<Rightarrow> False
      | Some t \<Rightarrow> (let v = calendar_value f t
                  in if e < s then s \<le> v \<or> v \<le> e else s \<le> v \<and> v \<le> e))"

definition filter_collection :: "(image \<Rightarrow> bool) \<Rightarrow> collection \<Rightarrow> collection" where
  "filter_collection P c = c\<lparr>images := filter P (images c)\<rparr>"

definition size_collection :: "collection \<Rightarrow> nat" where
  "size_collection c = length (images c)"

fun map_images :: "(image \<Rightarrow> error + image) \<Rightarrow> image list \<Rightarrow> error + image list" where
  "map_images f [] = Inr []"
| "map_images f (x # xs) = ee_bind (f x) (\<lambda>y. ee_bind (map_images f xs) (\<lambda>ys. Inr (y # ys)))"

definition map_collection :: "(image \<Rightarrow> error + image) \<Rightarrow> collection \<Rightarrow> error + collection" where
  "map_collection f c = ee_bind (map_images f (images c)) (\<lambda>ims. Inr (c\<lparr>images := ims\<rparr>))"

section \<open>The time band\<close>

text \<open>
  \<^verbatim>\<open>Image.metadata(property)\<close> is a constant band named after the property.
  \<^verbatim>\<open>Image.addBands(other)\<close> appends the bands of the other image and keeps the
  properties of the first; a name already in use gets the first free suffix
  \<^verbatim>\<open>_1\<close>, \<^verbatim>\<open>_2\<close>, ...
\<close>

definition metadata :: "image \<Rightarrow> string \<Rightarrow> error + image" where
  "metadata img k =
     (case props img k of
        Some (Num t) \<Rightarrow> Inr \<lparr>bands = [\<lparr>bname = k, btype = PFloat, bdata = (\<lambda>p. Some t)\<rparr>],
                             props = Map.empty\<rparr>
      | _ \<Rightarrow> Inl (PropertyNotNumeric k))"

function decimal :: "nat \<Rightarrow> string" where
  "decimal n =
     (if n < 10 then [char_of (48 + n)] else decimal (n div 10) @ [char_of (48 + n mod 10)])"
  by pat_completeness auto
termination
  by (relation "measure id") auto

declare decimal.simps [simp del]

definition fresh_name :: "string list \<Rightarrow> string \<Rightarrow> string" where
  "fresh_name used n =
     (if n \<notin> set used then n
      else case find (\<lambda>k. n @ ''_'' @ decimal k \<notin> set used) [1..<length used + 2] of
             Some k \<Rightarrow> n @ ''_'' @ decimal k
           | None \<Rightarrow> n)"

definition add_band :: "band list \<Rightarrow> band \<Rightarrow> band list" where
  "add_band bs b = bs @ [b\<lparr>bname := fresh_name (map bname bs) (bname b)\<rparr>]"

definition addBands :: "image \<Rightarrow> image \<Rightarrow> image" where
  "addBands img other = img\<lparr>bands := foldl add_band (bands img) (bands other)\<rparr>"

section \<open>Reducers\<close>

text \<open>
  A reducer works pixel by pixel on the valid values of the images of a collection; at a
  pixel where no image is valid the result is masked. \<open>Combine a b\<close> is
  \<^verbatim>\<open>a.combine(reducer2=b, sharedInputs=True)\<close>. The reducers with one input are applied
  to every band, the output bands named \<^verbatim>\<open>band_output\<close>; \<^verbatim>\<open>linearFit\<close> has two
  inputs, the first band the independent variable \<open>x\<close> and the second the dependent
  variable \<open>y\<close>, and the outputs \<^verbatim>\<open>scale\<close> and \<^verbatim>\<open>offset\<close>. A fit through fewer than two
  different \<open>x\<close> has no slope: it is shown masked.
\<close>

datatype reducer = Mean | StdDev | MinMax | Median | LinearFit | Combine reducer reducer

definition mean_of :: "real list \<Rightarrow> real option" where
  "mean_of xs = (if xs = [] then None else Some (sum_list xs / real (length xs)))"

definition stdDev_of :: "real list \<Rightarrow> real option" where
  "stdDev_of xs =
     (if xs = [] then None
      else let m = sum_list xs / real (length xs)
           in Some (sqrt (sum_list (map (\<lambda>x. (x - m)\<^sup>2) xs) / real (length xs))))"

definition min_of :: "real list \<Rightarrow> real option" where
  "min_of xs = (case xs of [] \<Rightarrow> None | x # ys \<Rightarrow> Some (foldl min x ys))"

definition max_of :: "real list \<Rightarrow> real option" where
  "max_of xs = (case xs of [] \<Rightarrow> None | x # ys \<Rightarrow> Some (foldl max x ys))"

definition median_of :: "real list \<Rightarrow> real option" where
  "median_of xs =
     (if xs = [] then None
      else let s = sort xs; n = length s
           in Some (if even n then (s ! (n div 2 - 1) + s ! (n div 2)) / 2 else s ! (n div 2)))"

fun outputs :: "reducer \<Rightarrow> (string \<times> (ptype \<Rightarrow> ptype) \<times> (real list \<Rightarrow> real option)) list" where
  "outputs Mean = [(''mean'', (\<lambda>t. PFloat), mean_of)]"
| "outputs StdDev = [(''stdDev'', (\<lambda>t. PFloat), stdDev_of)]"
| "outputs MinMax = [(''min'', (\<lambda>t. t), min_of), (''max'', (\<lambda>t. t), max_of)]"
| "outputs Median = [(''median'', (\<lambda>t. t), median_of)]"
| "outputs (Combine a b) = outputs a @ outputs b"
| "outputs LinearFit = []"

definition values_at :: "image list \<Rightarrow> nat \<Rightarrow> pixel \<Rightarrow> real list" where
  "values_at ims i p = List.map_filter (\<lambda>im. bdata (bands im ! i) p) ims"

definition reduce_bands :: "reducer \<Rightarrow> image list \<Rightarrow> band list \<Rightarrow> band list" where
  "reduce_bands r ims bs =
     concat (map (\<lambda>(i, b). map (\<lambda>(suffix, ty, f).
                   \<lparr>bname = bname b @ ''_'' @ suffix, btype = ty (btype b),
                    bdata = (\<lambda>p. f (values_at ims i p))\<rparr>) (outputs r))
                 (enumerate 0 bs))"

definition fit_pairs :: "image list \<Rightarrow> pixel \<Rightarrow> (real \<times> real) list" where
  "fit_pairs ims p =
     List.map_filter (\<lambda>im. case (bdata (bands im ! 0) p, bdata (bands im ! 1) p) of
                              (Some x, Some y) \<Rightarrow> Some (x, y)
                            | _ \<Rightarrow> None) ims"

definition fit_scale :: "(real \<times> real) list \<Rightarrow> real option" where
  "fit_scale ps =
     (let n = real (length ps);
          sx = sum_list (map fst ps); sy = sum_list (map snd ps);
          sxy = sum_list (map (\<lambda>(x, y). x * y) ps);
          sxx = sum_list (map (\<lambda>(x, y). x * x) ps);
          d = n * sxx - sx * sx
      in if d = 0 then None else Some ((n * sxy - sx * sy) / d))"

definition fit_offset :: "(real \<times> real) list \<Rightarrow> real option" where
  "fit_offset ps =
     (case fit_scale ps of
        None \<Rightarrow> None
      | Some a \<Rightarrow> Some ((sum_list (map snd ps) - a * sum_list (map fst ps)) / real (length ps)))"

text \<open>
  \<^verbatim>\<open>ImageCollection.reduce(reducer)\<close>. The images of the collection must have the same
  bands. What the platform returns for a collection without images is not fixed by the
  notebook: it is the parameter \<open>E\<close> of the model.
\<close>

definition same_bands :: "image \<Rightarrow> image \<Rightarrow> bool" where
  "same_bands a b \<longleftrightarrow> map bname (bands a) = map bname (bands b) \<and> map btype (bands a) = map btype (bands b)"

definition reduce :: "(reducer \<Rightarrow> error + image) \<Rightarrow> reducer \<Rightarrow> collection \<Rightarrow> error + image" where
  "reduce E r c =
     (case images c of
        [] \<Rightarrow> E r
      | im # ims \<Rightarrow>
          if \<not> list_all (same_bands im) ims then Inl InhomogeneousCollection
          else (case r of
                  LinearFit \<Rightarrow>
                    if length (bands im) = 2
                    then Inr \<lparr>bands = [\<lparr>bname = ''scale'', btype = PFloat,
                                        bdata = (\<lambda>p. fit_scale (fit_pairs (im # ims) p))\<rparr>,
                                       \<lparr>bname = ''offset'', btype = PFloat,
                                        bdata = (\<lambda>p. fit_offset (fit_pairs (im # ims) p))\<rparr>],
                              props = Map.empty\<rparr>
                    else Inl (ReducerInputs 2 (length (bands im)))
                | _ \<Rightarrow> Inr \<lparr>bands = reduce_bands r (im # ims) (bands im), props = Map.empty\<rparr>))"

definition set_prop :: "image \<Rightarrow> string \<Rightarrow> pvalue \<Rightarrow> image" where
  "set_prop img k v = img\<lparr>props := (props img)(k \<mapsto> v)\<rparr>"

section \<open>The notebook variables and the aggregating functions\<close>

text \<open>
  The functions read variables of the notebook that are assigned in other cells. The
  record holds the variables the functions of this theory read, and others the cells keep
  (\<^verbatim>\<open>index\<close>, \<^verbatim>\<open>dataset\<close>, the intermediate collection \<^verbatim>\<open>yearCompCol\<close>).
\<close>

record notebook =
  index_collection :: collection
  analysis :: string
  start_year :: int
  end_year :: int
  start_month :: int
  end_month :: int
  index :: string
  dataset :: collection
  yearCompCol :: collection

text \<open>
  \<^verbatim>\<open>annual_images(y)\<close>. The variable \<^verbatim>\<open>reducer\<close> is assigned in the branches of the
  \<^verbatim>\<open>if\<close>/\<^verbatim>\<open>elif\<close> chain only, which has no \<^verbatim>\<open>else\<close>: with any other value of
  \<^verbatim>\<open>analysis\<close> the read of \<^verbatim>\<open>reducer\<close> in the call of \<^verbatim>\<open>reduce\<close> raises Python's
  \<^verbatim>\<open>UnboundLocalError\<close>.
\<close>

definition annual_images :: "(reducer \<Rightarrow> error + image) \<Rightarrow> notebook \<Rightarrow> int \<Rightarrow> error + image" where
  "annual_images E nb y =
     (let range_year = calendarRange y y Year;
          range_month = calendarRange (start_month nb) (end_month nb) Month in
      ee_bind (map_collection
                 (\<lambda>img. ee_bind (metadata img ''system:time_start'')
                          (\<lambda>t. Inr (addBands img (divide t 31540000000))))
                 (filter_collection range_month
                    (filter_collection range_year (index_collection nb)))) (\<lambda>filtered_dataset.
      let num_images = size_collection filtered_dataset in
      ee_bind (if analysis nb = ''mean'' then Inr (Combine Mean StdDev)
               else if analysis nb = ''min'' \<or> analysis nb = ''max'' then Inr (Combine Mean MinMax)
               else if analysis nb = ''median'' then Inr (Combine Mean Median)
               else Inl (UnboundLocalError ''reducer'')) (\<lambda>reducer.
      ee_bind (reduce E reducer filtered_dataset) (\<lambda>stats.
      Inr (set_prop (set_prop stats ''year'' (Num (of_int y))) ''num''
             (Num (real num_images)))))))"

text \<open>
  \<^verbatim>\<open>intrayear(index_collection)\<close>: the collection is the argument, the years and months
  are notebook variables. The result is the filtered collection itself.
\<close>

definition intrayear :: "notebook \<Rightarrow> collection \<Rightarrow> error + collection" where
  "intrayear nb ic =
     (let range_year = calendarRange (start_year nb) (end_year nb) Year;
          range_month = calendarRange (start_month nb) (end_month nb) Month in
      ee_bind (map_collection
                 (\<lambda>img. ee_bind (metadata img ''system:time_start'')
                          (\<lambda>t. Inr (addBands img (divide t 31540000000))))
                 (filter_collection range_month (filter_collection range_year ic)))
        (\<lambda>filtered_dataset.
      let num_images = size_collection filtered_dataset in
      Inr (filtered_dataset\<lparr>cprops := (cprops filtered_dataset)
             (''year'' \<mapsto> Num (of_int (start_year nb)), ''num'' \<mapsto> Num (real num_images))\<rparr>)))"

definition annual_trend :: "(reducer \<Rightarrow> error + image) \<Rightarrow> notebook \<Rightarrow> int \<Rightarrow> error + image" where
  "annual_trend E nb y =
     (let range_year = calendarRange y y Year;
          range_month = calendarRange (start_month nb) (end_month nb) Month in
      ee_bind (map_collection
                 (\<lambda>img. ee_bind (metadata img ''system:time_start'')
                          (\<lambda>t. Inr (addBands img (divide t 31540000000))))
                 (filter_collection range_month
                    (filter_collection range_year (index_collection nb)))) (\<lambda>filtered_dataset.
      let num_images = size_collection filtered_dataset in
      ee_bind (reduce E LinearFit filtered_dataset) (\<lambda>stats.
      Inr (set_prop (set_prop stats ''year'' (Num (of_int y))) ''num''
             (Num (real num_images))))))"

text \<open>
  The cell ``Option 1: Temporal trend'', branch \<^verbatim>\<open>start_year == end_year\<close>: the bands
  of the seasonal collection are put in the order time, index before the linear fit.
  \<^verbatim>\<open>select\<close> with a list of names returns the bands in the order of the list.
\<close>

fun pick_bands :: "band list \<Rightarrow> string list \<Rightarrow> error + band list" where
  "pick_bands bs [] = Inr []"
| "pick_bands bs (n # ns) =
     (case find (\<lambda>b. bname b = n) bs of
        None \<Rightarrow> Inl (BandNotFound n)
      | Some b \<Rightarrow> ee_bind (pick_bands bs ns) (\<lambda>r. Inr (b # r)))"

definition select_bands :: "image \<Rightarrow> string list \<Rightarrow> error + image" where
  "select_bands img ns = ee_bind (pick_bands (bands img) ns) (\<lambda>bs. Inr (img\<lparr>bands := bs\<rparr>))"

definition intrayear_trend :: "(reducer \<Rightarrow> error + image) \<Rightarrow> notebook \<Rightarrow> error + image" where
  "intrayear_trend E nb =
     ee_bind (intrayear nb (index_collection nb)) (\<lambda>intrayear_collection.
     ee_bind (map_collection (\<lambda>img. select_bands img [''system:time_start'', index nb])
                intrayear_collection) (\<lambda>selected.
     reduce E LinearFit selected))"

section \<open>Notions used in the statements\<close>

text \<open>A computation returns when its value is not an error.\<close>

definition returns :: "error + 'a \<Rightarrow> bool" where
  "returns r = (case r of Inl e \<Rightarrow> False | Inr v \<Rightarrow> True)"

text \<open>
  An image passes the calendar filters of a window of years and months; the number of
  images of a collection that pass.
\<close>

definition in_window :: "int \<Rightarrow> int \<Rightarrow> int \<Rightarrow> int \<Rightarrow> image \<Rightarrow> bool" where
  "in_window sy ey sm em img \<longleftrightarrow> calendarRange sy ey Year img \<and> calendarRange sm em Month img"

definition count_window :: "int \<Rightarrow> int \<Rightarrow> int \<Rightarrow> int \<Rightarrow> collection \<Rightarrow> nat" where
  "count_window sy ey sm em c = length (filter (in_window sy ey sm em) (images c))"

text \<open>
  An image with one more band, the capture time in milliseconds divided by \<open>3.154e10\<close>;
  the images of a window, each with this band.
\<close>

definition time_band :: "image \<Rightarrow> image option" where
  "time_band img =
     map_option (\<lambda>t. img\<lparr>bands := bands img @
           [\<lparr>bname = fresh_name (map bname (bands img)) ''system:time_start'', btype = PFloat,
             bdata = (\<lambda>p. Some (t / 31540000000))\<rparr>]\<rparr>) (time_start img)"

definition window :: "int \<Rightarrow> int \<Rightarrow> int \<Rightarrow> int \<Rightarrow> collection \<Rightarrow> collection" where
  "window sy ey sm em c =
     c\<lparr>images := List.map_filter (\<lambda>img. if in_window sy ey sm em img then time_band img else None)
                   (images c)\<rparr>"

text \<open>The reducer that the chain of \<^verbatim>\<open>annual_images\<close> assigns, and the two tags it sets.\<close>

definition choose_reducer :: "string \<Rightarrow> error + reducer" where
  "choose_reducer a =
     (if a = ''mean'' then Inr (Combine Mean StdDev)
      else if a = ''min'' \<or> a = ''max'' then Inr (Combine Mean MinMax)
      else if a = ''median'' then Inr (Combine Mean Median)
      else Inl (UnboundLocalError ''reducer''))"

definition tag :: "int \<Rightarrow> nat \<Rightarrow> image \<Rightarrow> image" where
  "tag y n stats = set_prop (set_prop stats ''year'' (Num (of_int y))) ''num'' (Num (real n))"

text \<open>A pixel is clear when band QA60 is valid there with bits 10 and 11 zero.\<close>

definition qa_clear :: "image \<Rightarrow> pixel \<Rightarrow> bool" where
  "qa_clear img p =
     (case find (\<lambda>b. bname b = ''QA60'') (bands img) of
        None \<Rightarrow> False
      | Some qa \<Rightarrow> (case bdata qa p of
                     None \<Rightarrow> False
                   | Some v \<Rightarrow> \<not> bit \<lfloor>v\<rfloor> 10 \<and> \<not> bit \<lfloor>v\<rfloor> 11))"



section \<open>Example data\<close>

text \<open>
  A raw scene of four pixels: pixel 0 is clear ground, pixel 1 has the cloud bit set,
  pixel 2 is bright snow, pixel 3 is water in the water mask.
\<close>

definition raw_band :: "string \<Rightarrow> (pixel \<Rightarrow> real) \<Rightarrow> band" where
  "raw_band n f = \<lparr>bname = n, btype = PInt, bdata = (\<lambda>p. Some (f p))\<rparr>"

definition scene :: image where
  "scene =
     \<lparr>bands = [raw_band ''B2'' (\<lambda>p. if p = 2 then 9000 else 400),
               raw_band ''B3'' (\<lambda>p. if p = 2 then 9000 else 600),
               raw_band ''B4'' (\<lambda>p. if p = 2 then 9000 else 500),
               raw_band ''B8'' (\<lambda>p. if p = 2 then 9000 else 3000),
               raw_band ''QA60'' (\<lambda>p. if p = 1 then 1024 else 0),
               raw_band ''MSK_SNWPRB'' (\<lambda>p. if p = 2 then 95 else 0)],
      props = [''system:time_start'' \<mapsto> Num 1592770000000,
               ''CLOUDY_PIXEL_PERCENTAGE'' \<mapsto> Num 3]\<rparr>"

definition water :: image where
  "water = \<lparr>bands = [raw_band ''water_mask'' (\<lambda>p. if p = 3 then 1 else 0)], props = Map.empty\<rparr>"

text \<open>
  An index collection of five images: 2020-05-16, 2020-06-03, 2020-06-21, 2020-07-28 and
  2021-06-21. The index is \<open>0.1 * t / 3.154e10 - 5\<close> at every pixel: it rises by 0.1 per
  unit of the time band.
\<close>

definition ndvi_image :: "real \<Rightarrow> real \<Rightarrow> image" where
  "ndvi_image t v =
     \<lparr>bands = [\<lparr>bname = ''NDVI'', btype = PFloat, bdata = (\<lambda>p. Some v)\<rparr>],
      props = [''system:time_start'' \<mapsto> Num t]\<rparr>"

definition ndvi_series :: collection where
  "ndvi_series =
     \<lparr>images = [ndvi_image 1589616000000 (4 / 100),
                ndvi_image 1591193000000 (45 / 1000),
                ndvi_image 1592770000000 (5 / 100),
                ndvi_image 1595924000000 (6 / 100),
                ndvi_image 1624310000000 (15 / 100)],
      cprops = Map.empty\<rparr>"

definition season :: notebook where
  "season =
     \<lparr>index_collection = ndvi_series, analysis = ''max'', start_year = 2019, end_year = 2024,
      start_month = 6, end_month = 8, index = ''NDVI'',
      dataset = \<lparr>images = [], cprops = Map.empty\<rparr>,
      yearCompCol = \<lparr>images = [], cprops = Map.empty\<rparr>\<rparr>"

definition season_2020 :: notebook where
  "season_2020 = season\<lparr>start_year := 2020, end_year := 2020\<rparr>"



text \<open>One possible platform: the reduction of an empty collection is an image without bands.\<close>

definition no_bands :: "reducer \<Rightarrow> error + image" where
  "no_bands r = Inr \<lparr>bands = [], props = Map.empty\<rparr>"

section \<open>Basic facts\<close>

lemma ee_bind_Inl [simp]: "ee_bind (Inl e) f = Inl e"
  and ee_bind_Inr [simp]: "ee_bind (Inr v) f = f v"
  by (simp_all add: ee_bind_def)

lemma ee_bind_eq_Inr: "ee_bind m f = Inr y \<longleftrightarrow> (\<exists>v. m = Inr v \<and> f v = Inr y)"
  by (cases m) simp_all

lemma returns_simps [simp]: "returns (Inr v)" "\<not> returns (Inl e)"
  by (simp_all add: returns_def)

lemma returns_projr: "returns r \<Longrightarrow> r = Inr (projr r)"
  by (cases r) simp_all

lemma select_Inr:
  "select img n = Inr s \<longleftrightarrow>
     (\<exists>b. find (\<lambda>b. bname b = n) (bands img) = Some b \<and> s = img\<lparr>bands := [b]\<rparr>)"
  by (auto simp: select_def split: option.splits)

lemma updateMask_props: "updateMask img m = Inr out \<Longrightarrow> props out = props img"
  by (auto simp: updateMask_def split: list.splits if_splits)

lemma updateMask_one:
  "bands m = [mb] \<Longrightarrow> updateMask img m = Inr (img\<lparr>bands := map (apply_mask mb) (bands img)\<rparr>)"
  by (simp add: updateMask_def)

lemma copyProperties_key:
  "props (copyProperties dst src [k]) k =
     (case props src k of None \<Rightarrow> props dst k | Some v \<Rightarrow> Some v)"
  by (simp add: copyProperties_def map_add_def restrict_map_def)


lemma and_bit:
  "(x::int) AND 1024 = 0 \<longleftrightarrow> \<not> bit x 10"
  "(x::int) AND 2048 = 0 \<longleftrightarrow> \<not> bit x 11"
  using and_exp_eq_0_iff_not_bit [of x 10] and_exp_eq_0_iff_not_bit [of x 11] by simp_all

lemma bname_apply_mask [simp]: "bname (apply_mask m b) = bname b"
  by (simp add: apply_mask_def)


lemma band1_single [simp]: "band1 (img\<lparr>bands := [b]\<rparr>) = bdata b"
  by (simp add: band1_def)

section \<open>The cloud mask\<close>

lemma maskS2clouds_Inr:
  assumes "maskS2clouds img = Inr out"
  obtains qa msk masked where
    "select img ''QA60'' = Inr qa"
    "list_all (\<lambda>b. btype b = PInt) (bands qa)"
    "And (eq (map_values PInt (\<lambda>v. of_int (\<lfloor>v\<rfloor> AND push_bit 10 1)) qa) 0)
         (eq (map_values PInt (\<lambda>v. of_int (\<lfloor>v\<rfloor> AND push_bit 11 1)) qa) 0) = Inr msk"
    "updateMask img msk = Inr masked"
    "out = copyProperties (divide masked 10000) img [''system:time_start'']"
  using assms
  by (auto simp: maskS2clouds_def ee_bind_eq_Inr bitwiseAnd_def Let_def split: if_splits)

text \<open>
  The bands of the output of \<^verbatim>\<open>maskS2clouds\<close>: the bands of the input under the same
  names, divided by 10000 on the clear pixels and masked on the others, of type float.
\<close>

lemma maskS2clouds_bands:
  assumes "maskS2clouds img = Inr out"
  shows "bands out =
     map (\<lambda>b. \<lparr>bname = bname b, btype = PFloat,
                bdata = (\<lambda>p. if qa_clear img p then map_option (\<lambda>v. v / 10000) (bdata b p)
                                else None)\<rparr>) (bands img)"
proof -
  from assms obtain qa msk masked where
    qa: "select img ''QA60'' = Inr qa"
    and msk: "And (eq (map_values PInt (\<lambda>v. of_int (\<lfloor>v\<rfloor> AND push_bit 10 1)) qa) 0)
         (eq (map_values PInt (\<lambda>v. of_int (\<lfloor>v\<rfloor> AND push_bit 11 1)) qa) 0) = Inr msk"
    and masked: "updateMask img msk = Inr masked"
    and out: "out = copyProperties (divide masked 10000) img [''system:time_start'']"
    by (rule maskS2clouds_Inr)
  from qa obtain qb where qb: "find (\<lambda>b. bname b = ''QA60'') (bands img) = Some qb"
    and qa': "qa = img\<lparr>bands := [qb]\<rparr>"
    by (auto simp: select_Inr)
  define m where "m = and_band
      \<lparr>bname = bname qb, btype = PInt,
       bdata = (\<lambda>p. map_option (\<lambda>v. if v = 0 then 1 else 0)
                 (map_option (\<lambda>v. real_of_int (\<lfloor>v\<rfloor> AND push_bit 10 1)) (bdata qb p)))\<rparr>
      \<lparr>bname = bname qb, btype = PInt,
       bdata = (\<lambda>p. map_option (\<lambda>v. if v = 0 then 1 else 0)
                 (map_option (\<lambda>v. real_of_int (\<lfloor>v\<rfloor> AND push_bit 11 1)) (bdata qb p)))\<rparr>"
  from msk have b: "bands msk = [m]"
    by (auto simp: And_def eq_def map_values_def qa' m_def)
  have mp: "(case bdata m p of None \<Rightarrow> None | Some v \<Rightarrow> if v \<noteq> 0 then x else None)
      = (if qa_clear img p then x else None)" for p and x :: "real option"
    by (cases "bdata qb p") (simp_all add: m_def and_band_def qa_clear_def qb and_bit)
  from masked b have "masked = img\<lparr>bands := map (apply_mask m) (bands img)\<rparr>"
    by (simp add: updateMask_one)
  then show ?thesis
    by (simp add: out copyProperties_def divide_def map_values_def apply_mask_def mp
        if_distrib [of "map_option _"] cong: if_cong)
qed


lemma clouds_scene: "returns (maskS2clouds scene)"
  by (simp add: maskS2clouds_def scene_def raw_band_def select_def bitwiseAnd_def map_values_def
      eq_def And_def updateMask_def)

lemma clouds_scene_bands:
  "map (\<lambda>b. (bname b, btype b, map (bdata b) [0, 1, 2])) (bands (projr (maskS2clouds scene))) =
     [(''B2'', PFloat, [Some (1 / 25), None, Some (9 / 10)]),
      (''B3'', PFloat, [Some (3 / 50), None, Some (9 / 10)]),
      (''B4'', PFloat, [Some (1 / 20), None, Some (9 / 10)]),
      (''B8'', PFloat, [Some (3 / 10), None, Some (9 / 10)]),
      (''QA60'', PFloat, [Some 0, None, Some 0]),
      (''MSK_SNWPRB'', PFloat, [Some 0, None, Some (19 / 2000)])]"
  using maskS2clouds_bands [OF returns_projr [OF clouds_scene]]
  by (simp add: scene_def raw_band_def qa_clear_def bit_iff_odd)

text \<open>
  Claim C10: \<^verbatim>\<open>maskS2clouds\<close> rescales as well as masks. The output has the bands of the
  input under the same names, and on every pixel where the cloud and cirrus bits of QA60
  are both zero each output band is the input band divided by 10000.
\<close>

theorem maskS2clouds_rescales:
  assumes "maskS2clouds img = Inr out"
  shows "map bname (bands out) = map bname (bands img) \<and>
    (\<forall>i<length (bands img). \<forall>p. qa_clear img p \<longrightarrow>
       bdata (bands out ! i) p = map_option (\<lambda>v. v / 10000) (bdata (bands img ! i) p))"
  by (simp add: maskS2clouds_bands [OF assms] comp_def)

theorem maskS2clouds_rescales_witness:
  "returns (maskS2clouds scene) \<and> (2::nat) < length (bands scene) \<and> qa_clear scene 0 \<and>
   bdata (bands scene ! 2) 0 = Some 500 \<and>
   bdata (bands (projr (maskS2clouds scene)) ! 2) 0 = Some (1 / 20)"
proof -
  have l: "(2::nat) < length (bands scene)"
    by (simp add: scene_def)
  have q: "qa_clear scene 0"
    by (simp add: qa_clear_def scene_def raw_band_def)
  have v: "bdata (bands scene ! 2) 0 = Some 500"
    by (simp add: scene_def raw_band_def)
  from maskS2clouds_rescales [OF returns_projr [OF clouds_scene]] l q
  have "bdata (bands (projr (maskS2clouds scene)) ! 2) 0
      = map_option (\<lambda>v. v / 10000) (bdata (bands scene ! 2) 0)"
    by blast
  with clouds_scene l q v show ?thesis by simp
qed

section \<open>The capture time\<close>

lemma time_maskS2clouds:
  "maskS2clouds img = Inr out \<Longrightarrow> props out ''system:time_start'' = props img ''system:time_start''"
  by (erule maskS2clouds_Inr)
     (simp add: copyProperties_key divide_def map_values_def split: option.splits)

lemma time_maskWater:
  "maskWater w img = Inr out \<Longrightarrow> props out ''system:time_start'' = props img ''system:time_start''"
  by (auto simp: maskWater_def ee_bind_eq_Inr dest: updateMask_props)

lemma time_maskS2snow:
  "maskS2snow img = Inr out \<Longrightarrow> props out ''system:time_start'' = props img ''system:time_start''"
  by (auto simp: maskS2snow_def ee_bind_eq_Inr Let_def copyProperties_key
      dest!: updateMask_props split: option.splits)

lemma time_maskWhite:
  "maskWhite img = Inr out \<Longrightarrow> props out ''system:time_start'' = props img ''system:time_start''"
  by (auto simp: maskWhite_def ee_bind_eq_Inr Let_def copyProperties_key
      dest!: updateMask_props split: option.splits)

lemma water_scene: "returns (maskWater water scene)"
  by (simp add: maskWater_def water_def select_def raw_band_def lt_def map_values_def updateMask_def)

lemma snow_scene: "returns (maskS2snow scene)"
  by (simp add: maskS2snow_def scene_def select_def raw_band_def lt_def map_values_def
      updateMask_def)

lemma white_scene: "returns (maskWhite scene)"
  by (simp add: maskWhite_def scene_def select_def raw_band_def lte_def expression3_def
      map_values_def updateMask_def)

text \<open>
  Claim C6: every masking step keeps the capture time. The image returned by each of
  \<^verbatim>\<open>maskS2clouds\<close>, \<^verbatim>\<open>maskWater\<close>, \<^verbatim>\<open>maskS2snow\<close> and \<^verbatim>\<open>maskWhite\<close> has the
  value of \<^verbatim>\<open>system:time_start\<close> that its input has.
\<close>

theorem masks_keep_time_start:
  "(maskS2clouds img = Inr o1 \<longrightarrow> props o1 ''system:time_start'' = props img ''system:time_start'') \<and>
   (maskWater w img = Inr o2 \<longrightarrow> props o2 ''system:time_start'' = props img ''system:time_start'') \<and>
   (maskS2snow img = Inr o3 \<longrightarrow> props o3 ''system:time_start'' = props img ''system:time_start'') \<and>
   (maskWhite img = Inr o4 \<longrightarrow> props o4 ''system:time_start'' = props img ''system:time_start'')"
  by (simp add: time_maskS2clouds time_maskWater time_maskS2snow time_maskWhite)

theorem masks_keep_time_start_witness:
  "returns (maskS2clouds scene) \<and> returns (maskWater water scene) \<and>
   returns (maskS2snow scene) \<and> returns (maskWhite scene) \<and>
   props (projr (maskS2clouds scene)) ''system:time_start'' = Some (Num 1592770000000) \<and>
   props (projr (maskWater water scene)) ''system:time_start'' = Some (Num 1592770000000) \<and>
   props (projr (maskS2snow scene)) ''system:time_start'' = Some (Num 1592770000000) \<and>
   props (projr (maskWhite scene)) ''system:time_start'' = Some (Num 1592770000000)"
proof -
  have p: "props scene ''system:time_start'' = Some (Num 1592770000000)"
    by (simp add: scene_def)
  from masks_keep_time_start [of scene "projr (maskS2clouds scene)" water
      "projr (maskWater water scene)" "projr (maskS2snow scene)" "projr (maskWhite scene)"]
    returns_projr [OF clouds_scene] returns_projr [OF water_scene]
    returns_projr [OF snow_scene] returns_projr [OF white_scene]
    clouds_scene water_scene snow_scene white_scene
  show ?thesis by (simp add: p)
qed

section \<open>Masking twice\<close>














section \<open>The filtered collection of the aggregating functions\<close>

lemma calendarRange_time: "calendarRange s e f img \<Longrightarrow> \<exists>t. time_start img = Some t"
  by (auto simp: calendarRange_def split: option.splits)

lemma time_band_step:
  assumes "time_start img = Some t"
  shows "ee_bind (metadata img ''system:time_start'')
           (\<lambda>t. Inr (addBands img (divide t 31540000000))) = Inr (the (time_band img))"
proof -
  from assms have "props img ''system:time_start'' = Some (Num t)"
    by (auto simp: time_start_def split: option.splits pvalue.splits)
  with assms show ?thesis
    by (simp add: metadata_def time_band_def addBands_def add_band_def divide_def map_values_def)
qed

lemma map_images_time_band:
  "map_images (\<lambda>img. ee_bind (metadata img ''system:time_start'')
                  (\<lambda>t. Inr (addBands img (divide t 31540000000))))
     (filter (in_window sy ey sm em) xs)
     = Inr (List.map_filter (\<lambda>img. if in_window sy ey sm em img then time_band img else None) xs)"
proof (induction xs)
  case Nil
  show ?case by simp
next
  case (Cons x xs)
  show ?case
  proof (cases "in_window sy ey sm em x")
    case True
    then obtain t where t: "time_start x = Some t"
      unfolding in_window_def by (blast dest: calendarRange_time)
    then have "time_band x \<noteq> None" by (simp add: time_band_def)
    then obtain b where b: "time_band x = Some b" by blast
    with True t Cons show ?thesis
      by (simp add: time_band_step [OF t])
  next
    case False
    with Cons show ?thesis by simp
  qed
qed

lemma length_window: "length (images (window sy ey sm em c)) = count_window sy ey sm em c"
proof -
  have "length (List.map_filter (\<lambda>img. if in_window sy ey sm em img then time_band img else None) xs)
      = length (filter (in_window sy ey sm em) xs)" for xs
  proof (induction xs)
    case Nil
    show ?case by simp
  next
    case (Cons x xs)
    show ?case
    proof (cases "in_window sy ey sm em x")
      case True
      then obtain t where "time_start x = Some t"
        unfolding in_window_def by (blast dest: calendarRange_time)
      with True Cons show ?thesis by (simp add: time_band_def)
    next
      case False
      with Cons show ?thesis by simp
    qed
  qed
  then show ?thesis by (simp add: window_def count_window_def)
qed

lemma filter_window:
  "filter (calendarRange sm em Month) (filter (calendarRange sy ey Year) xs)
     = filter (in_window sy ey sm em) xs"
  by (induction xs) (auto simp: in_window_def)

lemma filtered_dataset_window:
  "map_collection (\<lambda>img. ee_bind (metadata img ''system:time_start'')
                  (\<lambda>t. Inr (addBands img (divide t 31540000000))))
     (filter_collection (calendarRange sm em Month)
        (filter_collection (calendarRange sy ey Year) c)) = Inr (window sy ey sm em c)"
proof -
  have fc: "filter_collection (calendarRange sm em Month)
              (filter_collection (calendarRange sy ey Year) c)
      = c\<lparr>images := filter (in_window sy ey sm em) (images c)\<rparr>"
    by (simp add: filter_collection_def filter_window del: filter_filter)
  show ?thesis
    by (simp add: fc map_collection_def window_def map_images_time_band)
qed

lemma annual_images_window:
  "annual_images E nb y =
     ee_bind (choose_reducer (analysis nb)) (\<lambda>r.
     ee_bind (reduce E r (window y y (start_month nb) (end_month nb) (index_collection nb)))
       (\<lambda>stats. Inr (tag y (count_window y y (start_month nb) (end_month nb) (index_collection nb))
                       stats)))"
  unfolding annual_images_def Let_def filtered_dataset_window
  by (simp add: size_collection_def length_window choose_reducer_def tag_def)

lemma annual_trend_window:
  "annual_trend E nb y =
     ee_bind (reduce E LinearFit (window y y (start_month nb) (end_month nb) (index_collection nb)))
       (\<lambda>stats. Inr (tag y (count_window y y (start_month nb) (end_month nb) (index_collection nb))
                       stats))"
  unfolding annual_trend_def Let_def filtered_dataset_window
  by (simp add: size_collection_def length_window tag_def)

lemma intrayear_window:
  "intrayear nb ic =
     Inr ((window (start_year nb) (end_year nb) (start_month nb) (end_month nb) ic)
           \<lparr>cprops := (cprops ic)(''year'' \<mapsto> Num (of_int (start_year nb)),
               ''num'' \<mapsto> Num (real (count_window (start_year nb) (end_year nb)
                   (start_month nb) (end_month nb) ic)))\<rparr>)"
  unfolding intrayear_def Let_def filtered_dataset_window
  by (simp add: size_collection_def length_window) (simp add: window_def)

text \<open>
  On a window without images both functions hand back what the platform returns for the
  reduction of an empty collection, tagged with the year and the count 0.
\<close>

lemma empty_window:
  assumes "count_window y y (start_month nb) (end_month nb) (index_collection nb) = 0"
  shows "annual_images E nb y =
           ee_bind (choose_reducer (analysis nb)) (\<lambda>r. ee_bind (E r) (\<lambda>stats. Inr (tag y 0 stats)))"
    and "annual_trend E nb y = ee_bind (E LinearFit) (\<lambda>stats. Inr (tag y 0 stats))"
proof -
  from assms
  have "images (window y y (start_month nb) (end_month nb) (index_collection nb)) = []"
    by (simp add: length_window [symmetric])
  then have "reduce E r (window y y (start_month nb) (end_month nb) (index_collection nb)) = E r"
    for r
    by (simp add: reduce_def)
  then show "annual_images E nb y =
           ee_bind (choose_reducer (analysis nb)) (\<lambda>r. ee_bind (E r) (\<lambda>stats. Inr (tag y 0 stats)))"
    and "annual_trend E nb y = ee_bind (E LinearFit) (\<lambda>stats. Inr (tag y 0 stats))"
    by (simp_all add: annual_images_window annual_trend_window assms)
qed

section \<open>The example season\<close>

lemmas calendar_defs = calendarRange_def time_start_def calendar_value_def civil_year_def
  civil_month_def year_of_era_def day_of_year_def

lemma window_series_2020:
  "window 2020 2020 6 8 ndvi_series =
     \<lparr>images = [the (time_band (ndvi_image 1591193000000 (45 / 1000))),
      the (time_band (ndvi_image 1592770000000 (5 / 100))),
      the (time_band (ndvi_image 1595924000000 (6 / 100)))], cprops = Map.empty\<rparr>"
  by (simp add: window_def ndvi_series_def in_window_def ndvi_image_def calendar_defs time_band_def)

lemma window_series_2021:
  "window 2021 2021 6 8 ndvi_series =
     \<lparr>images = [the (time_band (ndvi_image 1624310000000 (15 / 100)))], cprops = Map.empty\<rparr>"
  by (simp add: window_def ndvi_series_def in_window_def ndvi_image_def calendar_defs time_band_def)

lemma window_series_2022:
  "window 2022 2022 6 8 ndvi_series = \<lparr>images = [], cprops = Map.empty\<rparr>"
  by (simp add: window_def ndvi_series_def in_window_def ndvi_image_def calendar_defs time_band_def)

lemma count_series:
  "count_window 2020 2020 6 8 ndvi_series = 3"
  "count_window 2021 2021 6 8 ndvi_series = 1"
  "count_window 2022 2022 6 8 ndvi_series = 0"
  by (simp_all add: length_window [symmetric] window_series_2020 window_series_2021
      window_series_2022)

lemma time_band_ndvi:
  "the (time_band (ndvi_image t v)) =
     \<lparr>bands = [\<lparr>bname = ''NDVI'', btype = PFloat, bdata = (\<lambda>p. Some v)\<rparr>,
               \<lparr>bname = ''system:time_start'', btype = PFloat,
                 bdata = (\<lambda>p. Some (t / 31540000000))\<rparr>],
      props = [''system:time_start'' \<mapsto> Num t]\<rparr>"
  by (simp add: time_band_def ndvi_image_def time_start_def fresh_name_def)

lemma season_fields:
  "start_month season = 6" "end_month season = 8" "index_collection season = ndvi_series"
  "analysis season = ''max''"
  by (simp_all add: season_def)

lemma season_2020_fields:
  "start_month season_2020 = 6" "end_month season_2020 = 8"
  "index_collection season_2020 = ndvi_series" "analysis season_2020 = ''max''"
  "start_year season_2020 = 2020" "end_year season_2020 = 2020" "index season_2020 = ''NDVI''"
  by (simp_all add: season_def season_2020_def)


section \<open>The analysis mode and the count\<close>

text \<open>
  Claim C1: with an analysis mode outside mean, median, min and max, \<^verbatim>\<open>annual_images\<close>
  fails; it neither falls back on a reducer nor returns an image. The failure is the
  \<^verbatim>\<open>UnboundLocalError\<close> of the variable \<^verbatim>\<open>reducer\<close>.
\<close>

theorem annual_images_unknown_analysis_fails:
  "analysis nb \<notin> set [''mean'', ''median'', ''min'', ''max''] \<Longrightarrow>
   annual_images E nb y = Inl (UnboundLocalError ''reducer'')"
  by (simp add: annual_images_window choose_reducer_def)

theorem annual_images_unknown_analysis_fails_witness:
  "analysis (season\<lparr>analysis := ''sum''\<rparr>) \<notin> set [''mean'', ''median'', ''min'', ''max''] \<and>
   annual_images no_bands (season\<lparr>analysis := ''sum''\<rparr>) 2020 = Inl (UnboundLocalError ''reducer'')"
  using annual_images_unknown_analysis_fails [of "season\<lparr>analysis := ''sum''\<rparr>" no_bands 2020]
  by simp

text \<open>
  Claim C2: with an analysis mode among mean, median, min and max, the image that
  \<^verbatim>\<open>annual_images(y)\<close> returns has the property \<^verbatim>\<open>num\<close> equal to the number of images of
  \<^verbatim>\<open>index_collection\<close> that pass the filter of year \<open>y\<close> and the filter of the months
  \<^verbatim>\<open>start_month\<close> to \<^verbatim>\<open>end_month\<close>, zero included.
\<close>

theorem annual_images_num_counts_window:
  assumes "analysis nb \<in> set [''mean'', ''median'', ''min'', ''max'']"
    and "annual_images E nb y = Inr img"
  shows "props img ''num'' =
    Some (Num (real (count_window y y (start_month nb) (end_month nb) (index_collection nb))))"
  using assms(2) unfolding annual_images_window
  by (auto simp: ee_bind_eq_Inr tag_def set_prop_def)

theorem annual_images_num_counts_window_witness:
  "analysis season \<in> set [''mean'', ''median'', ''min'', ''max''] \<and>
   returns (annual_images no_bands season 2020) \<and>
   props (projr (annual_images no_bands season 2020)) ''num'' = Some (Num 3) \<and>
   returns (annual_images no_bands season 2022) \<and>
   props (projr (annual_images no_bands season 2022)) ''num'' = Some (Num 0)"
proof -
  have a: "returns (annual_images no_bands season 2020)"
    unfolding annual_images_window season_fields window_series_2020 time_band_ndvi
    by (simp add: choose_reducer_def reduce_def same_bands_def)
  have b: "returns (annual_images no_bands season 2022)"
    unfolding annual_images_window season_fields window_series_2022
    by (simp add: choose_reducer_def reduce_def no_bands_def)
  have m: "analysis season \<in> set [''mean'', ''median'', ''min'', ''max'']"
    by (simp add: season_fields)
  from annual_images_num_counts_window [OF m returns_projr [OF a]]
    annual_images_num_counts_window [OF m returns_projr [OF b]] a b m
  show ?thesis by (simp add: season_fields count_series)
qed

section \<open>The variables the functions read\<close>




text \<open>
  A call reads the variables as they are when it is made: after \<^verbatim>\<open>end_month = 6\<close> the
  same call counts the two images of June, not the three of June to August.
\<close>

lemma annual_images_follows_end_month:
  "map_sum id (\<lambda>img. props img ''num'') (annual_images no_bands season 2020) = Inr (Some (Num 3)) \<and>
   map_sum id (\<lambda>img. props img ''num'') (annual_images no_bands (season\<lparr>end_month := 6\<rparr>) 2020)
     = Inr (Some (Num 2))"
proof -
  have w: "window 2020 2020 6 6 ndvi_series =
     \<lparr>images = [the (time_band (ndvi_image 1591193000000 (45 / 1000))),
      the (time_band (ndvi_image 1592770000000 (5 / 100)))], cprops = Map.empty\<rparr>"
    by (simp add: window_def ndvi_series_def in_window_def ndvi_image_def calendar_defs
        time_band_def)
  have c: "count_window 2020 2020 6 6 ndvi_series = 2"
    by (simp add: length_window [symmetric] w)
  have f: "start_month (season\<lparr>end_month := 6\<rparr>) = 6" "end_month (season\<lparr>end_month := 6\<rparr>) = 6"
    "index_collection (season\<lparr>end_month := 6\<rparr>) = ndvi_series"
    "analysis (season\<lparr>end_month := 6\<rparr>) = ''max''"
    by (simp_all add: season_def)
  have "map_sum id (\<lambda>img. props img ''num'') (annual_images no_bands season 2020)
      = Inr (Some (Num 3))"
    unfolding annual_images_window season_fields window_series_2020 time_band_ndvi count_series
    by (simp add: choose_reducer_def reduce_def same_bands_def tag_def set_prop_def)
  moreover
  have "map_sum id (\<lambda>img. props img ''num'')
          (annual_images no_bands (season\<lparr>end_month := 6\<rparr>) 2020) = Inr (Some (Num 2))"
    unfolding annual_images_window f w time_band_ndvi c
    by (simp add: choose_reducer_def reduce_def same_bands_def tag_def set_prop_def)
  ultimately show ?thesis by simp
qed

section \<open>The time band and the fit\<close>

text \<open>
  Claim C7: ahead of any fit, each of \<^verbatim>\<open>annual_images\<close>, \<^verbatim>\<open>intrayear\<close> and
  \<^verbatim>\<open>annual_trend\<close> works on the images of its window with the time band added
  (\<open>window\<close>, \<open>time_band\<close>): the capture time in milliseconds divided by \<open>3.154e10\<close>, the
  same constant in the three functions, which is no argument or notebook variable.
\<close>

theorem time_band_same_constant:
  "annual_images E nb y =
     ee_bind (choose_reducer (analysis nb)) (\<lambda>r.
     ee_bind (reduce E r (window y y (start_month nb) (end_month nb) (index_collection nb)))
       (\<lambda>stats. Inr (tag y (count_window y y (start_month nb) (end_month nb) (index_collection nb))
                       stats))) \<and>
   annual_trend E nb y =
     ee_bind (reduce E LinearFit (window y y (start_month nb) (end_month nb) (index_collection nb)))
       (\<lambda>stats. Inr (tag y (count_window y y (start_month nb) (end_month nb) (index_collection nb))
                       stats)) \<and>
   intrayear nb ic =
     Inr ((window (start_year nb) (end_year nb) (start_month nb) (end_month nb) ic)
           \<lparr>cprops := (cprops ic)(''year'' \<mapsto> Num (of_int (start_year nb)),
               ''num'' \<mapsto> Num (real (count_window (start_year nb) (end_year nb)
                   (start_month nb) (end_month nb) ic)))\<rparr>)"
  using annual_images_window annual_trend_window intrayear_window by blast

theorem time_band_same_constant_witness:
  "map (\<lambda>img. map (\<lambda>b. (bname b, bdata b 0)) (bands img))
     (images (projr (intrayear season_2020 ndvi_series))) =
     [[(''NDVI'', Some (9 / 200)), (''system:time_start'', Some (1591193000000 / 31540000000))],
      [(''NDVI'', Some (1 / 20)), (''system:time_start'', Some (1592770000000 / 31540000000))],
      [(''NDVI'', Some (3 / 50)), (''system:time_start'', Some (1595924000000 / 31540000000))]]"
proof -
  from time_band_same_constant [of no_bands season_2020 2020 ndvi_series]
  have "intrayear season_2020 ndvi_series =
     Inr ((window 2020 2020 6 8 ndvi_series)
           \<lparr>cprops := (cprops ndvi_series)(''year'' \<mapsto> Num 2020,
               ''num'' \<mapsto> Num (real (count_window 2020 2020 6 8 ndvi_series)))\<rparr>)"
    by (simp add: season_2020_fields)
  then show ?thesis
    by (simp add: window_series_2020 time_band_ndvi)
qed

text \<open>
  The cell that fits the seasonal trend puts the time band first: on the example season it
  finds the slope 0.1 of the index against time.
\<close>

lemma intrayear_trend_season:
  "map_sum id (\<lambda>img. map (\<lambda>b. (bname b, bdata b 0)) (bands img))
     (intrayear_trend no_bands season_2020)
   = Inr [(''scale'', Some (1 / 10)), (''offset'', Some (- 5))]"
  unfolding intrayear_trend_def intrayear_window season_2020_fields window_series_2020
    time_band_ndvi
  by (simp add: map_collection_def select_bands_def reduce_def same_bands_def fit_pairs_def
      fit_scale_def fit_offset_def)

text \<open>
  Claim C8 fails on \<^verbatim>\<open>annual_trend\<close>: the function reduces the bands in the order index,
  time, so that the fit is of time against the index. On the example season, where the
  index rises by 0.1 per unit of time, the slope it returns is 10.
\<close>

theorem annual_trend_fits_time_against_index:
  "map_sum id (\<lambda>img. map (\<lambda>b. (bname b, bdata b 0)) (bands img))
     (annual_trend no_bands season 2020)
   = Inr [(''scale'', Some 10), (''offset'', Some 50)]"
  unfolding annual_trend_window season_fields window_series_2020 time_band_ndvi
  by (simp add: reduce_def same_bands_def fit_pairs_def fit_scale_def fit_offset_def
      tag_def set_prop_def)

end
